theory Spec2Isabelle
  imports Main
begin

section \<open>Waitlist routes: data model\<close>

text \<open>
  The development embeds \<^verbatim>\<open>backend/src/routes/waitlist.ts\<close>: the five Express handlers
  for join, count, list, delete and bulk email. A handler is a function from the
  environment of one invocation and the world before it to the handler's outcome and the
  world after it.
\<close>

record subscriber =
  name :: string
  email :: string
  role :: string
  joinedAt :: string

text \<open>
  What is handed to \<^verbatim>\<open>resend.emails.send\<close>: the welcome mail carries the React
  template applied to email and name, the bulk mail an HTML string.
\<close>

datatype content = EmailTemplate string string | Html string

record message =
  msg_from :: string
  msg_to :: string
  msg_subject :: string
  msg_content :: content

text \<open>
  The three ways an awaited \<^verbatim>\<open>resend.emails.send\<close> ends: no error, an error object
  with its message, or a rejected promise (an \<^verbatim>\<open>Error\<close> with its message, or
  some other thrown value).
\<close>

datatype send_result = Delivered | Refused string | Raised "string option"

datatype storage_op = AddOp | DeleteOp | ListOp | CountOp

text \<open>
  The environment of one invocation: the process variable \<^verbatim>\<open>RESEND_API_KEY\<close>, the
  email grammar and the invalid-enum message of the validation library, the key
  normalisation of the store, which storage calls fail, the answer of the mail provider to
  its \<open>k\<close>-th call, and the clock.
\<close>

record env =
  api_key :: "string option"
  email_syntax :: "string \<Rightarrow> bool"
  enum_message :: "string \<Rightarrow> string"
  normalize :: "string \<Rightarrow> string"
  storage_fault :: "storage_op \<Rightarrow> bool"
  provider :: "nat \<Rightarrow> message \<Rightarrow> send_result"
  now :: string

text \<open>
  The world: the subscriber store and the log of every call made to the mail provider,
  with its result.
\<close>

record world =
  store :: "subscriber list"
  mail_log :: "(message \<times> send_result) list"

record join_body =
  req_name :: "string option"
  req_email :: "string option"
  req_role :: "string option"

record bulk_body =
  subject :: "string option"
  body :: "string option"
  emails :: "string list option"

datatype json =
    Msg bool string
  | MsgCount bool string nat
  | CountOnly nat
  | SubscriberList "subscriber list"
  | MsgSubscribers bool string "subscriber list"

text \<open>
  A handler either sends a response (status and JSON body; \<^verbatim>\<open>res.json\<close> alone is
  status 200) or lets an exception leave it.
\<close>

datatype outcome = Response nat json | Unhandled

fun status_of :: "outcome \<Rightarrow> nat option" where
  "status_of (Response s j) = Some s"
| "status_of Unhandled = None"

section \<open>JavaScript helpers\<close>

text \<open>\<^verbatim>\<open>!v\<close> on a string that may be undefined: undefined and the empty string.\<close>

definition falsy :: "string option \<Rightarrow> bool" where
  "falsy v = (case v of None \<Rightarrow> True | Some s \<Rightarrow> s = [])"

definition str_of :: "string option \<Rightarrow> string" where
  "str_of v = (case v of None \<Rightarrow> [] | Some s \<Rightarrow> s)"

text \<open>\<^verbatim>\<open>Array.prototype.join\<close>.\<close>

fun join_str :: "string \<Rightarrow> string list \<Rightarrow> string" where
  "join_str sep [] = []"
| "join_str sep [x] = x"
| "join_str sep (x # y # ys) = x @ sep @ join_str sep (y # ys)"

text \<open>\<^verbatim>\<open>body.replace(/\n/g, '<br/>')\<close>: a left-to-right scan.\<close>

fun replace_newlines :: "string \<Rightarrow> string" where
  "replace_newlines [] = []"
| "replace_newlines (c # cs) =
     (if c = CHR 0x0A then ''<br/>'' @ replace_newlines cs else c # replace_newlines cs)"

text \<open>A length in a template literal: its decimal digits.\<close>

definition digit :: "nat \<Rightarrow> char" where
  "digit d = char_of (48 + d)"

fun show_nat :: "nat \<Rightarrow> string" where
  "show_nat n = (if n < 10 then [digit n] else show_nat (n div 10) @ [digit (n mod 10)])"

section \<open>The storage module\<close>

text \<open>
  The module \<^verbatim>\<open>lib/storage\<close> is not among the sources; its four functions are modelled
  from the specification, which describes the store as a key-value store keyed by the
  normalised email address that offers add-if-absent, delete-by-key, list-all and count.
  A call that fails raises (the result \<open>None\<close>) and leaves the store as it was.
\<close>

definition store_keys :: "(string \<Rightarrow> string) \<Rightarrow> subscriber list \<Rightarrow> string list" where
  "store_keys nrm st = map (\<lambda>s. nrm (email s)) st"

text \<open>
  Modelled from the spec: \<^verbatim>\<open>addSubscriber\<close> of the missing storage module, the
  add-if-absent of the store. It answers whether the record was added; a record whose key
  is taken is not written.
\<close>

definition addSubscriber ::
  "env \<Rightarrow> subscriber list \<Rightarrow> subscriber \<Rightarrow> (bool \<times> subscriber list) option" where
  "addSubscriber env st s =
     (if storage_fault env AddOp then None
      else if normalize env (email s) \<in> set (store_keys (normalize env) st)
        then Some (False, st)
        else Some (True, st @ [s]))"

text \<open>
  Modelled from the spec: \<^verbatim>\<open>deleteSubscriber\<close> of the missing storage module, the
  delete-by-key of the store. It answers whether a record was found; the record is removed
  for good.
\<close>

definition deleteSubscriber ::
  "env \<Rightarrow> subscriber list \<Rightarrow> string \<Rightarrow> (bool \<times> subscriber list) option" where
  "deleteSubscriber env st e =
     (if storage_fault env DeleteOp then None
      else if normalize env e \<in> set (store_keys (normalize env) st)
        then Some (True, filter (\<lambda>s. normalize env (email s) \<noteq> normalize env e) st)
        else Some (False, st))"

text \<open>
  Modelled from the spec: \<^verbatim>\<open>getAllSubscribers\<close> of the missing storage module, the
  list-all of the store.
\<close>

definition getAllSubscribers :: "env \<Rightarrow> subscriber list \<Rightarrow> subscriber list option" where
  "getAllSubscribers env st = (if storage_fault env ListOp then None else Some st)"

text \<open>
  Modelled from the spec: \<^verbatim>\<open>getSubscriberCount\<close> of the missing storage module, the
  count of the store.
\<close>

definition getSubscriberCount :: "env \<Rightarrow> subscriber list \<Rightarrow> nat option" where
  "getSubscriberCount env st = (if storage_fault env CountOp then None else Some (length st))"

section \<open>Validation schema\<close>

text \<open>
  \<^verbatim>\<open>schema.safeParse\<close> visits the keys in the order of the schema (name, email, role)
  and collects one issue for each check that fails; \<^verbatim>\<open>result.success\<close> is the absence
  of issues and \<^verbatim>\<open>result.error.errors[0]\<close> the first of them.
\<close>

definition schema_issues :: "env \<Rightarrow> string \<Rightarrow> string \<Rightarrow> string \<Rightarrow> string list" where
  "schema_issues env n e r =
     (if length n < 1 then [''Name is required''] else [])
     @ (if email_syntax env e then [] else [''Invalid email address''])
     @ (if r \<in> set [''customer'', ''provider''] then [] else [enum_message env r])"

section \<open>Handlers\<close>

definition welcome_message :: "string \<Rightarrow> string \<Rightarrow> message" where
  "welcome_message e n =
     \<lparr>msg_from = ''Steerify <onboarding@resend.dev>'',
      msg_to = e,
      msg_subject = ''Welcome to Steerify Waitlist! ''
          @ [CHR 0xC3, CHR 0xB0, CHR 0xC5, CHR 0xB8, CHR 0xC5, CHR 0xBD, CHR 0xE2, CHR 0x80, CHR 0xB0],
      msg_content = EmailTemplate e n\<rparr>"

definition unexpected_join :: outcome where
  "unexpected_join = Response 500 (Msg False ''An unexpected error occurred. Please try again.'')"

text \<open>\<^verbatim>\<open>router.post('/join')\<close>. The whole body of the handler is inside its \<^verbatim>\<open>try\<close>.\<close>

definition post_join :: "env \<Rightarrow> world \<Rightarrow> join_body option \<Rightarrow> outcome \<times> world" where
  "post_join env w req =
     (case req of
        None \<Rightarrow> (unexpected_join, w)
      | Some b \<Rightarrow>
          if falsy (req_name b) \<or> falsy (req_email b) \<or> falsy (req_role b)
          then (Response 400 (Msg False ''All fields are required''), w)
          else
            let n = str_of (req_name b); e = str_of (req_email b); r = str_of (req_role b) in
            (case schema_issues env n e r of
               m # ms \<Rightarrow> (Response 400 (Msg False m), w)
             | [] \<Rightarrow>
                 (case addSubscriber env (store w)
                         \<lparr>name = n, email = e, role = r, joinedAt = now env\<rparr> of
                    None \<Rightarrow> (unexpected_join, w)
                  | Some (added, st) \<Rightarrow>
                      let w1 = w\<lparr>store := st\<rparr> in
                      if \<not> added
                      then (Response 409 (Msg False ''This email is already on the waitlist''), w1)
                      else if \<not> falsy (api_key env)
                      then
                        let m = welcome_message e n;
                            res = provider env (length (mail_log w1)) m;
                            w2 = w1\<lparr>mail_log := mail_log w1 @ [(m, res)]\<rparr> in
                        (case res of
                           Refused msg \<Rightarrow>
                             (Response 500 (Msg False (''Email failed: '' @ msg)), w2)
                         | Raised x \<Rightarrow>
                             (Response 500 (Msg False (''Email service error: '' @
                                (case x of Some msg \<Rightarrow> msg | None \<Rightarrow> ''Unknown error''))), w2)
                         | Delivered \<Rightarrow>
                             (case getSubscriberCount env (store w2) of
                                None \<Rightarrow> (unexpected_join, w2)
                              | Some c \<Rightarrow>
                                  (Response 200 (MsgCount True
                                     ''You have been added to the waitlist! Check your email for confirmation.''
                                     c), w2)))
                      else (Response 500 (Msg False ''Email service not configured''), w1))))"

text \<open>\<^verbatim>\<open>router.get('/count')\<close>.\<close>

definition get_count :: "env \<Rightarrow> world \<Rightarrow> outcome \<times> world" where
  "get_count env w =
     (case getSubscriberCount env (store w) of
        Some c \<Rightarrow> (Response 200 (CountOnly c), w)
      | None \<Rightarrow> (Response 200 (CountOnly 0), w))"

text \<open>\<^verbatim>\<open>router.get('/subscribers')\<close>.\<close>

definition get_subscribers :: "env \<Rightarrow> world \<Rightarrow> outcome \<times> world" where
  "get_subscribers env w =
     (case getAllSubscribers env (store w) of
        Some subs \<Rightarrow> (Response 200 (SubscriberList subs), w)
      | None \<Rightarrow> (Response 500 (MsgSubscribers False ''Error fetching subscribers'' []), w))"

text \<open>\<^verbatim>\<open>router.delete('/subscriber/:email')\<close>; the argument is \<^verbatim>\<open>req.params.email\<close>.\<close>

definition delete_subscriber :: "env \<Rightarrow> world \<Rightarrow> string \<Rightarrow> outcome \<times> world" where
  "delete_subscriber env w e =
     (if falsy (Some e)
      then (Response 400 (Msg False ''Email is required''), w)
      else
        (case deleteSubscriber env (store w) e of
           None \<Rightarrow>
             (Response 500 (Msg False ''An unexpected error occurred while deleting subscriber.''), w)
         | Some (deleted, st) \<Rightarrow>
             let w1 = w\<lparr>store := st\<rparr> in
             if \<not> deleted
             then (Response 404 (Msg False ''Subscriber not found''), w1)
             else (Response 200 (Msg True ''Subscriber deleted successfully''), w1)))"

text \<open>The object literal that the bulk handler passes to \<^verbatim>\<open>resend.emails.send\<close>.\<close>

definition bulk_message :: "string \<Rightarrow> string \<Rightarrow> string \<Rightarrow> message" where
  "bulk_message sub bd e =
     \<lparr>msg_from = ''Steerify <onboarding@resend.dev>'',
      msg_to = e,
      msg_subject = sub,
      msg_content = Html (''<div style='' @ [CHR 0x27] @ ''font-family:sans-serif;line-height:1.5;''
                          @ [CHR 0x27] @ ''>'' @ replace_newlines bd @ ''</div>'')\<rparr>"

text \<open>
  \<^verbatim>\<open>emails.map(async (email) => ...)\<close>: every callback runs up to its \<^verbatim>\<open>await\<close> when
  \<^verbatim>\<open>map\<close> calls it, so the provider is called once for each address, in the order of
  the list, whatever the earlier calls answer; \<open>k\<close> counts the calls made so far.
\<close>

fun send_each :: "env \<Rightarrow> nat \<Rightarrow> string \<Rightarrow> string \<Rightarrow> string list \<Rightarrow> (message \<times> send_result) list" where
  "send_each env k sub bd [] = []"
| "send_each env k sub bd (e # es) =
     (bulk_message sub bd e, provider env k (bulk_message sub bd e))
       # send_each env (Suc k) sub bd es"

fun is_raised :: "send_result \<Rightarrow> bool" where
  "is_raised (Raised x) = True"
| "is_raised r = False"

text \<open>\<^verbatim>\<open>r.error\<close> is truthy: the send returned an error object.\<close>

fun has_error :: "send_result \<Rightarrow> bool" where
  "has_error (Refused msg) = True"
| "has_error r = False"

text \<open>
  \<^verbatim>\<open>router.post('/bulk-email')\<close>. The destructuring of \<^verbatim>\<open>req.body\<close> and the two
  checks come before the \<^verbatim>\<open>try\<close>; a rejected send makes \<^verbatim>\<open>Promise.all\<close> reject and
  is caught.
\<close>

definition post_bulk_email :: "env \<Rightarrow> world \<Rightarrow> bulk_body option \<Rightarrow> outcome \<times> world" where
  "post_bulk_email env w req =
     (case req of
        None \<Rightarrow> (Unhandled, w)
      | Some b \<Rightarrow>
          if falsy (api_key env)
          then (Response 500 (Msg False ''Resend API key not configured.''), w)
          else if falsy (subject b) \<or> falsy (body b) \<or> emails b = None
                  \<or> length (case emails b of None \<Rightarrow> [] | Some es \<Rightarrow> es) = 0
          then (Response 400
                  (Msg False ''Subject, body, and at least one recipient are required.''), w)
          else
            let es = (case emails b of None \<Rightarrow> [] | Some es \<Rightarrow> es);
                results = send_each env (length (mail_log w)) (str_of (subject b)) (str_of (body b)) es;
                w1 = w\<lparr>mail_log := mail_log w @ results\<rparr> in
            if list_ex (\<lambda>(m, r). is_raised r) results
            then (Response 500 (Msg False ''An error occurred while sending emails.''), w1)
            else
              let failed = filter (\<lambda>(m, r). has_error r) results in
              if length failed > 0
              then (Response 500 (Msg False (''Failed to send to: '' @
                      join_str '', '' (map (\<lambda>(m, r). msg_to m) failed))), w1)
              else (Response 200 (Msg True (''Sent to '' @ show_nat (length es)
                      @ '' subscriber(s).'')), w1))"

text \<open>One request to the router, and a run of requests, each in its own environment.\<close>

datatype request =
    Join "join_body option"
  | Count
  | Subscribers
  | Delete string
  | BulkEmail "bulk_body option"

fun handle :: "env \<Rightarrow> world \<Rightarrow> request \<Rightarrow> outcome \<times> world" where
  "handle env w (Join req) = post_join env w req"
| "handle env w Count = get_count env w"
| "handle env w Subscribers = get_subscribers env w"
| "handle env w (Delete e) = delete_subscriber env w e"
| "handle env w (BulkEmail req) = post_bulk_email env w req"

fun run :: "world \<Rightarrow> (env \<times> request) list \<Rightarrow> world" where
  "run w [] = w"
| "run w ((env, r) # rest) = run (snd (handle env w r)) rest"

section \<open>The specification's notions\<close>

text \<open>
  The input constraints of a join, as the specification lists them: a name that is not
  empty, an email of the email grammar (the empty string is none), a role of the
  enumeration. A missing field counts as empty.
\<close>

definition valid_join :: "env \<Rightarrow> join_body \<Rightarrow> bool" where
  "valid_join env b =
     (str_of (req_name b) \<noteq> []
      \<and> str_of (req_email b) \<noteq> [] \<and> email_syntax env (str_of (req_email b))
      \<and> (str_of (req_role b) = ''customer'' \<or> str_of (req_role b) = ''provider''))"

text \<open>
  The three input constraints of the specification, in its order (name, email, role),
  each with whether the request meets it and the message that the schema of the source
  declares for its violation; and the message of the first one violated.
\<close>

definition join_constraints :: "env \<Rightarrow> join_body \<Rightarrow> (bool \<times> string) list" where
  "join_constraints env b =
     [(str_of (req_name b) \<noteq> [], ''Name is required''),
      (email_syntax env (str_of (req_email b)), ''Invalid email address''),
      (str_of (req_role b) = ''customer'' \<or> str_of (req_role b) = ''provider'',
         enum_message env (str_of (req_role b)))]"

fun first_violated :: "(bool \<times> string) list \<Rightarrow> string option" where
  "first_violated [] = None"
| "first_violated ((ok, msg) # cs) = (if ok then first_violated cs else Some msg)"

text \<open>The store holds a record for an email: one of its keys is the email's key.\<close>

definition has_record :: "(string \<Rightarrow> string) \<Rightarrow> subscriber list \<Rightarrow> string \<Rightarrow> bool" where
  "has_record nrm st e = (nrm e \<in> set (store_keys nrm st))"

definition records_for :: "(string \<Rightarrow> string) \<Rightarrow> subscriber list \<Rightarrow> string \<Rightarrow> subscriber list" where
  "records_for nrm st e = filter (\<lambda>s. nrm (email s) = nrm e) st"

text \<open>The invariant of the store: no two records share a key.\<close>

definition unique_keys :: "(string \<Rightarrow> string) \<Rightarrow> subscriber list \<Rightarrow> bool" where
  "unique_keys nrm st = distinct (store_keys nrm st)"

text \<open>
  The admission side effects for one email in a run: the join requests for that email
  that change the world (a record written, a welcome mail handed to the provider).
\<close>

definition joins_for :: "(string \<Rightarrow> string) \<Rightarrow> string \<Rightarrow> request \<Rightarrow> bool" where
  "joins_for nrm e r =
     (case r of Join (Some b) \<Rightarrow> nrm (str_of (req_email b)) = nrm e | _ \<Rightarrow> False)"

definition deletes_for :: "(string \<Rightarrow> string) \<Rightarrow> string \<Rightarrow> request \<Rightarrow> bool" where
  "deletes_for nrm e r = (case r of Delete e' \<Rightarrow> nrm e' = nrm e | _ \<Rightarrow> False)"

fun admissions :: "(string \<Rightarrow> string) \<Rightarrow> string \<Rightarrow> world \<Rightarrow> (env \<times> request) list \<Rightarrow> nat" where
  "admissions nrm e w [] = 0"
| "admissions nrm e w ((env, r) # rest) =
     (if joins_for nrm e r \<and> snd (handle env w r) \<noteq> w then 1 else 0)
       + admissions nrm e (snd (handle env w r)) rest"

text \<open>
  The recipients of a bulk send whose send returned an error, by position in the list;
  \<open>k\<close> is the number of provider calls made before the bulk send.
\<close>

definition failed_recipients :: "env \<Rightarrow> nat \<Rightarrow> string \<Rightarrow> string \<Rightarrow> string list \<Rightarrow> string list" where
  "failed_recipients env k sub bd es =
     map (\<lambda>i. es ! i)
       (filter (\<lambda>i. has_error (provider env (k + i) (bulk_message sub bd (es ! i))))
          [0..<length es])"

text \<open>
  The lines of a plain text (\<^verbatim>\<open>split('\n')\<close>): the specification describes the HTML
  body as these lines joined by a line break.
\<close>

fun split_lines :: "string \<Rightarrow> string list" where
  "split_lines [] = [[]]"
| "split_lines (c # cs) =
     (if c = CHR 0x0A then [] # split_lines cs
      else (case split_lines cs of [] \<Rightarrow> [[c]] | l # ls \<Rightarrow> (c # l) # ls))"

section \<open>Example environments and worlds\<close>

definition has_at :: "string \<Rightarrow> bool" where
  "has_at s = (CHR ''@'' \<in> set s)"

definition env_ok :: env where
  "env_ok =
     \<lparr>api_key = Some ''re_key'',
      email_syntax = has_at,
      enum_message = (\<lambda>r. ''Invalid enum value''),
      normalize = (\<lambda>s. s),
      storage_fault = (\<lambda>op. False),
      provider = (\<lambda>k m. Delivered),
      now = ''2025-01-01T00:00:00.000Z''\<rparr>"

text \<open>No API key; the store down; a provider that refuses, or raises for, one address.\<close>

definition env_nokey :: env where
  "env_nokey = env_ok\<lparr>api_key := None\<rparr>"

definition env_down :: env where
  "env_down = env_ok\<lparr>storage_fault := (\<lambda>op. True)\<rparr>"

definition env_refuse :: env where
  "env_refuse =
     env_ok\<lparr>provider := (\<lambda>k m. if msg_to m = ''b@x.io'' then Refused ''bounced'' else Delivered)\<rparr>"

definition env_raise :: env where
  "env_raise =
     env_ok\<lparr>provider := (\<lambda>k m. if msg_to m = ''b@x.io'' then Raised (Some ''socket'') else Delivered)\<rparr>"

definition w_empty :: world where
  "w_empty = \<lparr>store = [], mail_log = []\<rparr>"

definition ann :: subscriber where
  "ann = \<lparr>name = ''Ann'', email = ''a@x.io'', role = ''customer'', joinedAt = ''2025-01-01T00:00:00.000Z''\<rparr>"

definition w_ann :: world where
  "w_ann = \<lparr>store = [ann], mail_log = []\<rparr>"

definition join_ann :: join_body where
  "join_ann = \<lparr>req_name = Some ''Ann'', req_email = Some ''a@x.io'', req_role = Some ''customer''\<rparr>"

definition join_noname :: join_body where
  "join_noname = \<lparr>req_name = Some [], req_email = Some ''a@x.io'', req_role = Some ''customer''\<rparr>"

definition join_badmail :: join_body where
  "join_badmail = \<lparr>req_name = Some ''Ann'', req_email = Some ''nope'', req_role = Some ''customer''\<rparr>"

definition join_badmail_norole :: join_body where
  "join_badmail_norole = \<lparr>req_name = Some ''Ann'', req_email = Some ''nope'', req_role = Some []\<rparr>"

definition join_bob :: join_body where
  "join_bob = \<lparr>req_name = Some ''Bob'', req_email = Some ''b@x.io'', req_role = Some ''provider''\<rparr>"

definition bulk_abc :: bulk_body where
  "bulk_abc =
     \<lparr>subject = Some ''News'', body = Some (''Hi'' @ [CHR 0x0A] @ ''<b>all</b>''),
      emails = Some [''a@x.io'', ''b@x.io'', ''c@x.io'']\<rparr>"

definition bulk_blank :: bulk_body where
  "bulk_blank = \<lparr>subject = None, body = None, emails = None\<rparr>"

section \<open>Facts about the helpers and the store\<close>

lemma split_lines_not_Nil: "split_lines cs \<noteq> []"
  by (induction cs) (simp_all split: list.splits)

lemma replace_newlines_joins_lines: "replace_newlines bd = join_str ''<br/>'' (split_lines bd)"
proof (induction bd)
  case Nil
  show ?case by simp
next
  case (Cons c cs)
  show ?case
  proof (cases "split_lines cs")
    case Nil
    then show ?thesis by (simp add: split_lines_not_Nil)
  next
    case (Cons l ls)
    then show ?thesis using Cons.IH by (cases ls) simp_all
  qed
qed

lemma split_lines_lossless: "join_str [CHR 0x0A] (split_lines bd) = bd"
proof (induction bd)
  case Nil
  show ?case by simp
next
  case (Cons c cs)
  show ?case
  proof (cases "split_lines cs")
    case Nil
    then show ?thesis by (simp add: split_lines_not_Nil)
  next
    case (Cons l ls)
    then show ?thesis using Cons.IH by (cases ls) auto
  qed
qed

lemma send_each_messages: "map fst (send_each env k sub bd es) = map (bulk_message sub bd) es"
  by (induction es arbitrary: k) simp_all

lemma send_each_by_index:
  "send_each env k sub bd es =
     map (\<lambda>i. (bulk_message sub bd (es ! i), provider env (k + i) (bulk_message sub bd (es ! i))))
       [0..<length es]"
proof (induction es arbitrary: k)
  case Nil
  show ?case by simp
next
  case (Cons e es)
  have "[0..<length (e # es)] = 0 # map Suc [0..<length es]"
    by (simp add: upt_conv_Cons map_Suc_upt del: upt_Suc)
  then show ?case
    by (simp add: Cons.IH comp_def del: upt_Suc)
qed

lemma failed_names:
  "map (\<lambda>(m, r). msg_to m) (filter (\<lambda>(m, r). has_error r) (send_each env k sub bd es)) =
     failed_recipients env k sub bd es"
  by (simp add: send_each_by_index failed_recipients_def filter_map comp_def bulk_message_def)

lemma raised_by_index:
  "list_ex (\<lambda>(m, r). is_raised r) (send_each env k sub bd es) =
     (\<exists>i<length es. is_raised (provider env (k + i) (bulk_message sub bd (es ! i))))"
  by (auto simp add: send_each_by_index list_ex_iff)

text \<open>
  The three constraints are met together exactly by the valid requests (the empty string
  is no email address).
\<close>

lemma constraints_characterise_valid:
  "(first_violated (join_constraints env b) = None \<and> str_of (req_email b) \<noteq> []) =
     valid_join env b"
  by (auto simp add: join_constraints_def valid_join_def)

lemma join_existing_unchanged:
  "has_record (normalize env) (store w) (str_of (req_email b)) \<Longrightarrow>
   snd (post_join env w (Some b)) = w"
  by (auto simp add: post_join_def has_record_def addSubscriber_def Let_def
      split: option.splits list.splits)

lemma join_existing_conflict:
  "has_record (normalize env) (store w) (str_of (req_email b)) \<Longrightarrow> valid_join env b \<Longrightarrow>
   \<not> storage_fault env AddOp \<Longrightarrow>
   fst (post_join env w (Some b)) =
     Response 409 (Msg False ''This email is already on the waitlist'')"
  by (auto simp add: post_join_def has_record_def addSubscriber_def valid_join_def
      schema_issues_def falsy_def str_of_def Let_def
      split: option.splits list.splits)

lemma join_change_records:
  "snd (post_join env w (Some b)) \<noteq> w \<Longrightarrow>
   has_record (normalize env) (store (snd (post_join env w (Some b)))) (str_of (req_email b))"
  by (auto simp add: post_join_def has_record_def addSubscriber_def store_keys_def Let_def
      split: option.splits list.splits send_result.splits if_splits)

lemma one_record:
  "unique_keys nrm st \<Longrightarrow> has_record nrm st e \<Longrightarrow> length (records_for nrm st e) = 1"
proof (induction st)
  case Nil
  then show ?case by (simp add: has_record_def store_keys_def)
next
  case (Cons s st)
  show ?case
  proof (cases "nrm (email s) = nrm e")
    case True
    with Cons.prems have "nrm e \<notin> set (store_keys nrm st)"
      by (simp add: unique_keys_def store_keys_def)
    then have "records_for nrm st e = []"
      by (force simp add: records_for_def store_keys_def filter_empty_conv)
    with True show ?thesis by (simp add: records_for_def)
  next
    case False
    with Cons.prems have "unique_keys nrm st" and "has_record nrm st e"
      by (auto simp add: unique_keys_def has_record_def store_keys_def)
    with Cons.IH False show ?thesis by (simp add: records_for_def)
  qed
qed

text \<open>Only a delete of an email takes its record out of the store.\<close>

lemma handle_keeps_record:
  "normalize env = nrm \<Longrightarrow> \<not> deletes_for nrm e r \<Longrightarrow> has_record nrm (store w) e \<Longrightarrow>
   has_record nrm (store (snd (handle env w r))) e"
  by (cases r)
    (auto simp add: post_join_def get_count_def get_subscribers_def delete_subscriber_def
      post_bulk_email_def deleteSubscriber_def addSubscriber_def deletes_for_def
      has_record_def store_keys_def Let_def
      split: option.splits list.splits send_result.splits if_splits)

text \<open>Every handler keeps the keys of the store unique.\<close>

lemma handle_keeps_unique_keys:
  "normalize env = nrm \<Longrightarrow> unique_keys nrm (store w) \<Longrightarrow>
   unique_keys nrm (store (snd (handle env w r)))"
  by (cases r)
    (auto simp add: post_join_def get_count_def get_subscribers_def delete_subscriber_def
      post_bulk_email_def deleteSubscriber_def addSubscriber_def unique_keys_def
      store_keys_def Let_def distinct_map_filter
      split: option.splits list.splits send_result.splits if_splits)

lemma admissions_none:
  "\<forall>(env, r)\<in>set steps. normalize env = nrm \<and> \<not> deletes_for nrm e r \<Longrightarrow>
   has_record nrm (store w) e \<Longrightarrow> admissions nrm e w steps = 0"
proof (induction steps arbitrary: w)
  case Nil
  show ?case by simp
next
  case (Cons step steps)
  obtain env r where step: "step = (env, r)" by (cases step)
  from Cons.prems step have nrm: "normalize env = nrm" and nodel: "\<not> deletes_for nrm e r"
    by auto
  have same: "joins_for nrm e r \<Longrightarrow> snd (handle env w r) = w"
  proof -
    assume "joins_for nrm e r"
    then obtain b where r: "r = Join (Some b)" and k: "nrm (str_of (req_email b)) = nrm e"
      by (auto simp add: joins_for_def split: request.splits option.splits)
    from Cons.prems(2) k nrm have "has_record (normalize env) (store w) (str_of (req_email b))"
      by (simp add: has_record_def)
    then show ?thesis using r by (simp add: join_existing_unchanged)
  qed
  have keep: "has_record nrm (store (snd (handle env w r))) e"
    using nrm nodel Cons.prems(2) by (rule handle_keeps_record)
  have "admissions nrm e (snd (handle env w r)) steps = 0"
    using Cons.prems(1) keep by (intro Cons.IH) auto
  then show ?case using step same by auto
qed

lemma admissions_at_most_one:
  "\<forall>(env, r)\<in>set steps. normalize env = nrm \<and> \<not> deletes_for nrm e r \<Longrightarrow>
   admissions nrm e w steps \<le> 1"
proof (induction steps arbitrary: w)
  case Nil
  show ?case by simp
next
  case (Cons step steps)
  obtain env r where step: "step = (env, r)" by (cases step)
  from Cons.prems step have nrm: "normalize env = nrm"
    and rest: "\<forall>(env, r)\<in>set steps. normalize env = nrm \<and> \<not> deletes_for nrm e r"
    by auto
  show ?case
  proof (cases "joins_for nrm e r \<and> snd (handle env w r) \<noteq> w")
    case True
    then obtain b where r: "r = Join (Some b)" and k: "nrm (str_of (req_email b)) = nrm e"
      by (auto simp add: joins_for_def split: request.splits option.splits)
    from True r
    have "has_record (normalize env) (store (snd (post_join env w (Some b)))) (str_of (req_email b))"
      by (simp add: join_change_records)
    with k nrm r have "has_record nrm (store (snd (handle env w r))) e"
      by (simp add: has_record_def)
    with rest have "admissions nrm e (snd (handle env w r)) steps = 0"
      by (rule admissions_none)
    with step True show ?thesis by simp
  next
    case False
    with step Cons.IH [OF rest, of "snd (handle env w r)"] show ?thesis by auto
  qed
qed

section \<open>Join\<close>

text \<open>
  C1 (as amended). A join request for an email that already has a record in the store
  leaves the store and the mail log as they were: no welcome mail is handed to the
  provider, and a store with unique keys still holds exactly one record for that email.
  Its answer is the 409 conflict when the request passes validation and the store call
  does not fail. In a run of requests with no delete of that email, at most one join for
  it has an admission side effect.
\<close>

theorem join_duplicate_has_no_effect:
  "(has_record (normalize env) (store w) (str_of (req_email b)) \<longrightarrow>
      snd (post_join env w (Some b)) = w
      \<and> (unique_keys (normalize env) (store w) \<longrightarrow>
           length (records_for (normalize env) (store (snd (post_join env w (Some b))))
                     (str_of (req_email b))) = 1)
      \<and> (valid_join env b \<and> \<not> storage_fault env AddOp \<longrightarrow>
           fst (post_join env w (Some b)) =
             Response 409 (Msg False ''This email is already on the waitlist'')))
   \<and> ((\<forall>(env, r)\<in>set steps. normalize env = nrm \<and> \<not> deletes_for nrm e r) \<longrightarrow>
        admissions nrm e w0 steps \<le> 1)"
proof -
  have "snd (post_join env w (Some b)) = w
      \<and> (unique_keys (normalize env) (store w) \<longrightarrow>
           length (records_for (normalize env) (store (snd (post_join env w (Some b))))
                     (str_of (req_email b))) = 1)
      \<and> (valid_join env b \<and> \<not> storage_fault env AddOp \<longrightarrow>
           fst (post_join env w (Some b)) =
             Response 409 (Msg False ''This email is already on the waitlist''))"
    if h: "has_record (normalize env) (store w) (str_of (req_email b))"
    using h by (simp add: join_existing_unchanged join_existing_conflict one_record)
  moreover have "admissions nrm e w0 steps \<le> 1"
    if "\<forall>(env, r)\<in>set steps. normalize env = nrm \<and> \<not> deletes_for nrm e r"
    using that by (rule admissions_at_most_one)
  ultimately show ?thesis by blast
qed

theorem join_duplicate_has_no_effect_witness:
  "has_record (normalize env_ok) (store w_ann) (str_of (req_email join_ann))
   \<and> unique_keys (normalize env_ok) (store w_ann)
   \<and> valid_join env_ok join_ann \<and> \<not> storage_fault env_ok AddOp
   \<and> snd (post_join env_ok w_ann (Some join_ann)) = w_ann
   \<and> length (records_for (normalize env_ok) (store (snd (post_join env_ok w_ann (Some join_ann))))
        (str_of (req_email join_ann))) = 1
   \<and> fst (post_join env_ok w_ann (Some join_ann)) =
       Response 409 (Msg False ''This email is already on the waitlist'')
   \<and> admissions (normalize env_ok) ''a@x.io'' w_empty
       [(env_ok, Join (Some join_ann)), (env_ok, Count), (env_ok, Join (Some join_ann))] \<le> 1"
proof -
  have h1: "has_record (normalize env_ok) (store w_ann) (str_of (req_email join_ann))"
    by (simp add: has_record_def store_keys_def env_ok_def w_ann_def ann_def join_ann_def str_of_def)
  have h2: "unique_keys (normalize env_ok) (store w_ann)"
    by (simp add: unique_keys_def store_keys_def w_ann_def)
  have h3: "valid_join env_ok join_ann"
    by (simp add: valid_join_def env_ok_def join_ann_def str_of_def has_at_def)
  have h4: "\<not> storage_fault env_ok AddOp"
    by (simp add: env_ok_def)
  have h5: "\<forall>(env, r)\<in>set [(env_ok, Join (Some join_ann)), (env_ok, Count),
              (env_ok, Join (Some join_ann))].
            normalize env = normalize env_ok \<and> \<not> deletes_for (normalize env_ok) ''a@x.io'' r"
    by (simp add: deletes_for_def)
  from join_duplicate_has_no_effect [of env_ok w_ann join_ann
      "[(env_ok, Join (Some join_ann)), (env_ok, Count), (env_ok, Join (Some join_ann))]"
      "normalize env_ok" "''a@x.io''" w_empty] h1 h2 h3 h4 h5
  show ?thesis by blast
qed

theorem join_duplicate_counterexample:
  "has_record (normalize env_ok) (store w_ann) ''a@x.io''
   \<and> fst (post_join env_ok w_ann (Some join_noname)) =
       Response 400 (Msg False ''All fields are required'')
   \<and> admissions (normalize env_ok) ''a@x.io'' w_empty
       [(env_ok, Join (Some join_ann)), (env_ok, Delete ''a@x.io''),
        (env_ok, Join (Some join_ann))] = 2"
  by (simp add: has_record_def store_keys_def env_ok_def w_ann_def ann_def join_noname_def
      post_join_def falsy_def w_empty_def join_ann_def joins_for_def str_of_def
      schema_issues_def has_at_def addSubscriber_def welcome_message_def getSubscriberCount_def
      delete_subscriber_def deleteSubscriber_def Let_def)

text \<open>
  C2 (as amended). A join request that carries a body and has an empty name, a malformed
  email or a role outside the enumeration is answered with status 400, and the store and
  the mail log are left as they were. The message is \<open>All fields are required\<close> when one
  of the three fields is missing or empty, and otherwise the message of the first
  constraint violated, in the order name, email, role. A request without a body is
  answered with status 500, also without a store write or a mail.
\<close>

theorem join_invalid_rejected:
  "(\<not> valid_join env b \<longrightarrow>
      (\<exists>msg.
         (if falsy (req_name b) \<or> falsy (req_email b) \<or> falsy (req_role b)
          then msg = ''All fields are required''
          else first_violated (join_constraints env b) = Some msg)
         \<and> post_join env w (Some b) = (Response 400 (Msg False msg), w)))
   \<and> post_join env w None =
       (Response 500 (Msg False ''An unexpected error occurred. Please try again.''), w)"
  by (auto simp add: post_join_def join_constraints_def valid_join_def schema_issues_def
      falsy_def str_of_def unexpected_join_def Let_def split: option.splits list.splits)

theorem join_invalid_rejected_witness:
  "\<not> valid_join env_ok join_badmail
   \<and> first_violated (join_constraints env_ok join_badmail) = Some ''Invalid email address''
   \<and> post_join env_ok w_ann (Some join_badmail) =
       (Response 400 (Msg False ''Invalid email address''), w_ann)
   \<and> \<not> valid_join env_ok join_noname \<and> falsy (req_name join_noname)
   \<and> post_join env_ok w_ann (Some join_noname) =
       (Response 400 (Msg False ''All fields are required''), w_ann)
   \<and> post_join env_ok w_ann None =
       (Response 500 (Msg False ''An unexpected error occurred. Please try again.''), w_ann)"
proof -
  have h1: "\<not> valid_join env_ok join_badmail"
    by (simp add: valid_join_def str_of_def join_badmail_def env_ok_def has_at_def)
  have t1: "\<not> (falsy (req_name join_badmail) \<or> falsy (req_email join_badmail)
      \<or> falsy (req_role join_badmail))"
    by (simp add: falsy_def join_badmail_def)
  have f1: "first_violated (join_constraints env_ok join_badmail) = Some ''Invalid email address''"
    by (simp add: join_constraints_def join_badmail_def str_of_def env_ok_def has_at_def)
  have h2: "\<not> valid_join env_ok join_noname"
    by (simp add: valid_join_def str_of_def join_noname_def)
  have t2: "falsy (req_name join_noname)"
    by (simp add: falsy_def join_noname_def)
  from join_invalid_rejected [of env_ok join_badmail w_ann] h1 t1 f1
  have a: "post_join env_ok w_ann (Some join_badmail) =
      (Response 400 (Msg False ''Invalid email address''), w_ann)"
    by auto
  from join_invalid_rejected [of env_ok join_noname w_ann] h2 t2
  have b: "post_join env_ok w_ann (Some join_noname) =
      (Response 400 (Msg False ''All fields are required''), w_ann)"
    and c: "post_join env_ok w_ann None =
      (Response 500 (Msg False ''An unexpected error occurred. Please try again.''), w_ann)"
    by auto
  from h1 f1 a h2 t2 b c show ?thesis by blast
qed

theorem join_invalid_counterexample:
  "first_violated (join_constraints env_ok join_badmail_norole) = Some ''Invalid email address''
   \<and> fst (post_join env_ok w_ann (Some join_badmail_norole)) =
       Response 400 (Msg False ''All fields are required'')
   \<and> first_violated (join_constraints env_ok join_noname) = Some ''Name is required''
   \<and> fst (post_join env_ok w_ann (Some join_noname)) =
       Response 400 (Msg False ''All fields are required'')
   \<and> fst (post_join env_ok w_ann None) =
       Response 500 (Msg False ''An unexpected error occurred. Please try again.'')"
  by (simp add: join_constraints_def join_badmail_norole_def join_noname_def str_of_def
      env_ok_def has_at_def post_join_def falsy_def unexpected_join_def)

text \<open>
  C3. A valid join request for an email without a record, whose insertion succeeds, is
  answered with status 500 when the API key is absent or the welcome mail is not
  delivered (the provider returns an error or the call raises); the record inserted just
  before stays in the store.
\<close>

theorem join_mail_failure_keeps_record:
  assumes "valid_join env b"
    and "\<not> has_record (normalize env) (store w) (str_of (req_email b))"
    and "\<not> storage_fault env AddOp"
    and "falsy (api_key env)
         \<or> provider env (length (mail_log w))
              (welcome_message (str_of (req_email b)) (str_of (req_name b))) \<noteq> Delivered"
  shows "status_of (fst (post_join env w (Some b))) = Some 500
    \<and> store (snd (post_join env w (Some b))) =
        store w @ [\<lparr>name = str_of (req_name b), email = str_of (req_email b),
                    role = str_of (req_role b), joinedAt = now env\<rparr>]
    \<and> has_record (normalize env) (store (snd (post_join env w (Some b)))) (str_of (req_email b))"
  using assms
  by (auto simp add: post_join_def valid_join_def has_record_def schema_issues_def falsy_def
      str_of_def addSubscriber_def store_keys_def Let_def
      split: option.splits list.splits send_result.splits)

theorem join_mail_failure_keeps_record_witness:
  "valid_join env_nokey join_bob
   \<and> \<not> has_record (normalize env_nokey) (store w_ann) (str_of (req_email join_bob))
   \<and> \<not> storage_fault env_nokey AddOp \<and> falsy (api_key env_nokey)
   \<and> status_of (fst (post_join env_nokey w_ann (Some join_bob))) = Some 500
   \<and> store (snd (post_join env_nokey w_ann (Some join_bob))) =
       [ann, \<lparr>name = ''Bob'', email = ''b@x.io'', role = ''provider'',
               joinedAt = ''2025-01-01T00:00:00.000Z''\<rparr>]
   \<and> provider env_refuse 0 (welcome_message ''b@x.io'' ''Bob'') = Refused ''bounced''
   \<and> status_of (fst (post_join env_refuse w_ann (Some join_bob))) = Some 500
   \<and> has_record (normalize env_refuse) (store (snd (post_join env_refuse w_ann (Some join_bob))))
       ''b@x.io''"
proof -
  have v1: "valid_join env_nokey join_bob" and v2: "valid_join env_refuse join_bob"
    by (simp_all add: valid_join_def env_nokey_def env_refuse_def env_ok_def join_bob_def
        str_of_def has_at_def)
  have n1: "\<not> has_record (normalize env_nokey) (store w_ann) (str_of (req_email join_bob))"
    and n2: "\<not> has_record (normalize env_refuse) (store w_ann) (str_of (req_email join_bob))"
    by (simp_all add: has_record_def store_keys_def env_nokey_def env_refuse_def env_ok_def
        w_ann_def ann_def join_bob_def str_of_def)
  have f1: "\<not> storage_fault env_nokey AddOp" and f2: "\<not> storage_fault env_refuse AddOp"
    by (simp_all add: env_nokey_def env_refuse_def env_ok_def)
  have k: "falsy (api_key env_nokey)"
    by (simp add: falsy_def env_nokey_def env_ok_def)
  have p: "provider env_refuse 0 (welcome_message ''b@x.io'' ''Bob'') = Refused ''bounced''"
    by (simp add: env_refuse_def env_ok_def welcome_message_def)
  have p': "provider env_refuse (length (mail_log w_ann))
      (welcome_message (str_of (req_email join_bob)) (str_of (req_name join_bob))) \<noteq> Delivered"
    using p by (simp add: w_ann_def join_bob_def str_of_def)
  have e: "str_of (req_email join_bob) = ''b@x.io''" "str_of (req_name join_bob) = ''Bob''"
    "str_of (req_role join_bob) = ''provider''" "now env_nokey = ''2025-01-01T00:00:00.000Z''"
    "store w_ann = [ann]"
    by (simp_all add: join_bob_def str_of_def env_nokey_def env_ok_def w_ann_def)
  have A: "status_of (fst (post_join env_nokey w_ann (Some join_bob))) = Some 500
      \<and> store (snd (post_join env_nokey w_ann (Some join_bob))) =
          [ann, \<lparr>name = ''Bob'', email = ''b@x.io'', role = ''provider'',
                  joinedAt = ''2025-01-01T00:00:00.000Z''\<rparr>]"
    using join_mail_failure_keeps_record [OF v1 n1 f1 disjI1 [OF k]] by (simp add: e)
  have B: "status_of (fst (post_join env_refuse w_ann (Some join_bob))) = Some 500
      \<and> has_record (normalize env_refuse)
          (store (snd (post_join env_refuse w_ann (Some join_bob)))) ''b@x.io''"
    using join_mail_failure_keeps_record [OF v2 n2 f2 disjI2 [OF p']] unfolding e by blast
  from A B v1 n1 f1 k p show ?thesis by blast
qed

section \<open>Delete\<close>

text \<open>
  C6. Delete answers an empty email with status 400. For a non-empty email and a store
  that does not fail: without a record for the email the answer is 404 and nothing
  changes; with one the answer is 200, the records of that key are removed and all others
  kept, a following list returns a store without a record for it, and a second delete of
  the same email is answered 404.
\<close>

theorem delete_removes_then_not_found:
  assumes "e \<noteq> []" and "\<not> storage_fault env DeleteOp"
    and "normalize env2 = normalize env"
    and "\<not> storage_fault env2 ListOp" and "\<not> storage_fault env2 DeleteOp"
  shows "fst (delete_subscriber env w []) = Response 400 (Msg False ''Email is required'')
    \<and> (if has_record (normalize env) (store w) e
       then fst (delete_subscriber env w e) =
              Response 200 (Msg True ''Subscriber deleted successfully'')
         \<and> store (snd (delete_subscriber env w e)) =
             filter (\<lambda>s. normalize env (email s) \<noteq> normalize env e) (store w)
         \<and> fst (get_subscribers env2 (snd (delete_subscriber env w e))) =
             Response 200 (SubscriberList (store (snd (delete_subscriber env w e))))
         \<and> records_for (normalize env) (store (snd (delete_subscriber env w e))) e = []
         \<and> delete_subscriber env2 (snd (delete_subscriber env w e)) e =
             (Response 404 (Msg False ''Subscriber not found''), snd (delete_subscriber env w e))
       else delete_subscriber env w e = (Response 404 (Msg False ''Subscriber not found''), w))"
  using assms
  by (auto simp add: delete_subscriber_def deleteSubscriber_def has_record_def records_for_def
      get_subscribers_def getAllSubscribers_def store_keys_def falsy_def Let_def filter_empty_conv)

theorem delete_removes_then_not_found_witness:
  "has_record (normalize env_ok) (store w_ann) ''a@x.io''
   \<and> fst (delete_subscriber env_ok w_ann ''a@x.io'') =
       Response 200 (Msg True ''Subscriber deleted successfully'')
   \<and> fst (get_subscribers env_ok (snd (delete_subscriber env_ok w_ann ''a@x.io''))) =
       Response 200 (SubscriberList [])
   \<and> fst (delete_subscriber env_ok (snd (delete_subscriber env_ok w_ann ''a@x.io'')) ''a@x.io'') =
       Response 404 (Msg False ''Subscriber not found'')
   \<and> \<not> has_record (normalize env_ok) (store w_ann) ''z@x.io''
   \<and> delete_subscriber env_ok w_ann ''z@x.io'' =
       (Response 404 (Msg False ''Subscriber not found''), w_ann)"
proof -
  have f: "\<not> storage_fault env_ok DeleteOp" "\<not> storage_fault env_ok ListOp"
    by (simp_all add: env_ok_def)
  have h1: "has_record (normalize env_ok) (store w_ann) ''a@x.io''"
    and h2: "\<not> has_record (normalize env_ok) (store w_ann) ''z@x.io''"
    by (simp_all add: has_record_def store_keys_def env_ok_def w_ann_def ann_def)
  have s: "filter (\<lambda>s. normalize env_ok (email s) \<noteq> normalize env_ok ''a@x.io'') (store w_ann) = []"
    by (simp add: env_ok_def w_ann_def ann_def)
  have ne: "''a@x.io'' \<noteq> []" "''z@x.io'' \<noteq> []"
    by simp_all
  from delete_removes_then_not_found [OF ne(1) f(1) refl f(2) f(1), of w_ann]
    delete_removes_then_not_found [OF ne(2) f(1) refl f(2) f(1), of w_ann] h1 h2 s
  show ?thesis by simp
qed

section \<open>Bulk email\<close>

text \<open>
  C4 (as amended). In a bulk send with an API key, a subject and a body, the provider is
  called once for every recipient, in the order of the list, and no call is undone. When
  no call raises and the provider returns an error for at least one recipient, the
  answer is status 500 with the message \<open>Failed to send to: \<close> followed by exactly the
  recipients whose send returned an error, in that order. When a call raises, the answer
  is status 500 with the general message, which names no recipient.
\<close>

theorem bulk_names_failed_recipients:
  assumes "\<not> falsy (api_key env)" and "\<not> falsy (subject b)" and "\<not> falsy (body b)"
    and "emails b = Some es"
  shows "((\<forall>i<length es. \<not> is_raised (provider env (length (mail_log w) + i)
              (bulk_message (str_of (subject b)) (str_of (body b)) (es ! i))))
          \<and> failed_recipients env (length (mail_log w)) (str_of (subject b)) (str_of (body b)) es \<noteq> []
        \<longrightarrow> fst (post_bulk_email env w (Some b)) =
              Response 500 (Msg False (''Failed to send to: '' @ join_str '', ''
                (failed_recipients env (length (mail_log w)) (str_of (subject b))
                   (str_of (body b)) es))))
    \<and> ((\<exists>i<length es. is_raised (provider env (length (mail_log w) + i)
              (bulk_message (str_of (subject b)) (str_of (body b)) (es ! i))))
        \<longrightarrow> fst (post_bulk_email env w (Some b)) =
              Response 500 (Msg False ''An error occurred while sending emails.''))
    \<and> mail_log (snd (post_bulk_email env w (Some b))) =
        mail_log w @ map (\<lambda>i. (bulk_message (str_of (subject b)) (str_of (body b)) (es ! i),
                                provider env (length (mail_log w) + i)
                                  (bulk_message (str_of (subject b)) (str_of (body b)) (es ! i))))
                       [0..<length es]
    \<and> store (snd (post_bulk_email env w (Some b))) = store w"
proof -
  let ?k = "length (mail_log w)" and ?s = "str_of (subject b)" and ?d = "str_of (body b)"
  let ?rs = "send_each env ?k ?s ?d es"
  have names: "map (\<lambda>(m, r). msg_to m) (filter (\<lambda>(m, r). has_error r) ?rs) =
      failed_recipients env ?k ?s ?d es"
    by (rule failed_names)
  have nonempty: "(filter (\<lambda>(m, r). has_error r) ?rs = []) =
      (failed_recipients env ?k ?s ?d es = [])"
    using names by (metis map_is_Nil_conv)
  have raised: "list_ex (\<lambda>(m, r). is_raised r) ?rs =
      (\<exists>i<length es. is_raised (provider env (?k + i) (bulk_message ?s ?d (es ! i))))"
    by (rule raised_by_index)
  have log: "?rs = map (\<lambda>i. (bulk_message ?s ?d (es ! i),
      provider env (?k + i) (bulk_message ?s ?d (es ! i)))) [0..<length es]"
    by (rule send_each_by_index)
  show ?thesis
  proof (cases "es = []")
    case True
    with assms show ?thesis
      by (simp add: post_bulk_email_def failed_recipients_def)
  next
    case False
    with assms names nonempty raised log show ?thesis
      by (simp add: post_bulk_email_def Let_def)
  qed
qed

theorem bulk_names_failed_recipients_witness:
  "\<not> falsy (api_key env_refuse) \<and> \<not> falsy (subject bulk_abc) \<and> \<not> falsy (body bulk_abc)
   \<and> emails bulk_abc = Some [''a@x.io'', ''b@x.io'', ''c@x.io'']
   \<and> failed_recipients env_refuse 0 ''News'' (''Hi'' @ [CHR 0x0A] @ ''<b>all</b>'')
       [''a@x.io'', ''b@x.io'', ''c@x.io''] = [''b@x.io'']
   \<and> fst (post_bulk_email env_refuse w_empty (Some bulk_abc)) =
       Response 500 (Msg False ''Failed to send to: b@x.io'')
   \<and> map snd (mail_log (snd (post_bulk_email env_refuse w_empty (Some bulk_abc)))) =
       [Delivered, Refused ''bounced'', Delivered]
   \<and> \<not> falsy (api_key env_raise)
   \<and> is_raised (provider env_raise 1
        (bulk_message ''News'' (''Hi'' @ [CHR 0x0A] @ ''<b>all</b>'') ''b@x.io''))
   \<and> fst (post_bulk_email env_raise w_empty (Some bulk_abc)) =
       Response 500 (Msg False ''An error occurred while sending emails.'')"
proof -
  have h: "\<not> falsy (api_key env_refuse)" "\<not> falsy (subject bulk_abc)" "\<not> falsy (body bulk_abc)"
    "emails bulk_abc = Some [''a@x.io'', ''b@x.io'', ''c@x.io'']"
    by (simp_all add: falsy_def env_refuse_def env_ok_def bulk_abc_def)
  have e: "length (mail_log w_empty) = 0" "str_of (subject bulk_abc) = ''News''"
    "str_of (body bulk_abc) = ''Hi'' @ [CHR 0x0A] @ ''<b>all</b>''"
    by (simp_all add: w_empty_def bulk_abc_def str_of_def)
  have up: "[0..<length [''a@x.io'', ''b@x.io'', ''c@x.io'']] = [0, 1, 2]"
    by (simp add: upt_conv_Cons)
  have fr: "failed_recipients env_refuse 0 ''News'' (''Hi'' @ [CHR 0x0A] @ ''<b>all</b>'')
       [''a@x.io'', ''b@x.io'', ''c@x.io''] = [''b@x.io'']"
    unfolding failed_recipients_def up
    by (simp add: env_refuse_def env_ok_def bulk_message_def)
  have nr: "\<forall>i<length [''a@x.io'', ''b@x.io'', ''c@x.io''].
      \<not> is_raised (provider env_refuse (0 + i)
          (bulk_message ''News'' (''Hi'' @ [CHR 0x0A] @ ''<b>all</b>'')
             ([''a@x.io'', ''b@x.io'', ''c@x.io''] ! i)))"
    by (simp add: env_refuse_def env_ok_def)
  have rs: "map (\<lambda>i. provider env_refuse (0 + i)
          (bulk_message ''News'' (''Hi'' @ [CHR 0x0A] @ ''<b>all</b>'')
             ([''a@x.io'', ''b@x.io'', ''c@x.io''] ! i))) [0, 1, 2] =
       [Delivered, Refused ''bounced'', Delivered]"
    by (simp add: env_refuse_def env_ok_def bulk_message_def)
  from bulk_names_failed_recipients [OF h, of w_empty] nr fr
  have "fst (post_bulk_email env_refuse w_empty (Some bulk_abc)) =
       Response 500 (Msg False ''Failed to send to: b@x.io'')"
    and "map snd (mail_log (snd (post_bulk_email env_refuse w_empty (Some bulk_abc)))) =
       [Delivered, Refused ''bounced'', Delivered]"
    unfolding e up using rs by (simp_all add: w_empty_def comp_def)
  note refused = this
  have h': "\<not> falsy (api_key env_raise)"
    by (simp add: falsy_def env_raise_def env_ok_def)
  have r: "is_raised (provider env_raise 1
        (bulk_message ''News'' (''Hi'' @ [CHR 0x0A] @ ''<b>all</b>'') ''b@x.io''))"
    by (simp add: env_raise_def env_ok_def bulk_message_def)
  then have ex: "\<exists>i<length [''a@x.io'', ''b@x.io'', ''c@x.io''].
      is_raised (provider env_raise (0 + i)
          (bulk_message ''News'' (''Hi'' @ [CHR 0x0A] @ ''<b>all</b>'')
             ([''a@x.io'', ''b@x.io'', ''c@x.io''] ! i)))"
    by (intro exI [of _ 1]) simp
  from bulk_names_failed_recipients [OF h' h(2) h(3) h(4), of w_empty] ex
  have raised: "fst (post_bulk_email env_raise w_empty (Some bulk_abc)) =
       Response 500 (Msg False ''An error occurred while sending emails.'')"
    unfolding e by blast
  from h fr refused h' r raised show ?thesis by simp
qed

theorem bulk_raise_counterexample:
  "provider env_raise 1 (bulk_message ''News'' (''Hi'' @ [CHR 0x0A] @ ''<b>all</b>'') ''b@x.io'') =
     Raised (Some ''socket'')
   \<and> fst (post_bulk_email env_raise w_empty (Some bulk_abc)) =
       Response 500 (Msg False ''An error occurred while sending emails.'')"
  by (simp add: post_bulk_email_def env_raise_def env_ok_def w_empty_def bulk_abc_def falsy_def
      str_of_def bulk_message_def Let_def)

text \<open>
  C8. A bulk send with an API key, a subject and a body hands to the provider, for every
  recipient of the list and in its order, a message to that recipient whose HTML is the
  fixed \<open>div\<close> wrapper around the lines of the request's body joined by \<open><br/>\<close>.
  The lines are the body cut at its newline characters and nothing else: every other
  character, markup included, is passed on as it is.
\<close>

theorem bulk_html_is_lines_joined:
  assumes "\<not> falsy (api_key env)" and "\<not> falsy (subject b)"
    and "body b = Some bd" and "bd \<noteq> []" and "emails b = Some es"
  shows "map (\<lambda>(m, r). (msg_to m, msg_content m))
           (mail_log (snd (post_bulk_email env w (Some b)))) =
         map (\<lambda>(m, r). (msg_to m, msg_content m)) (mail_log w)
         @ map (\<lambda>e. (e, Html (''<div style='' @ [CHR 0x27]
                       @ ''font-family:sans-serif;line-height:1.5;'' @ [CHR 0x27] @ ''>''
                       @ join_str ''<br/>'' (split_lines bd) @ ''</div>''))) es
    \<and> join_str [CHR 0x0A] (split_lines bd) = bd
    \<and> concat (split_lines bd) = filter (\<lambda>c. c \<noteq> CHR 0x0A) bd"
proof -
  let ?rs = "send_each env (length (mail_log w)) (str_of (subject b)) bd es"
  have "map (\<lambda>(m, r). (msg_to m, msg_content m)) ?rs =
      map (\<lambda>m. (msg_to m, msg_content m)) (map fst ?rs)"
    by (simp add: case_prod_unfold)
  then have sent: "map (\<lambda>(m, r). (msg_to m, msg_content m)) ?rs =
      map (\<lambda>e. (e, Html (''<div style='' @ [CHR 0x27]
                       @ ''font-family:sans-serif;line-height:1.5;'' @ [CHR 0x27] @ ''>''
                       @ join_str ''<br/>'' (split_lines bd) @ ''</div>''))) es"
    by (simp add: send_each_messages bulk_message_def replace_newlines_joins_lines)
  have log: "mail_log (snd (post_bulk_email env w (Some b))) = mail_log w @ ?rs"
  proof (cases "es = []")
    case True
    with assms show ?thesis by (simp add: post_bulk_email_def)
  next
    case False
    with assms show ?thesis
      by (simp add: post_bulk_email_def falsy_def str_of_def Let_def)
  qed
  have verbatim: "concat (split_lines bd) = filter (\<lambda>c. c \<noteq> CHR 0x0A) bd"
    by (induction bd) (auto split: list.splits simp add: split_lines_not_Nil)
  from sent log verbatim show ?thesis
    by (simp add: split_lines_lossless)
qed

theorem bulk_html_is_lines_joined_witness:
  "\<not> falsy (api_key env_refuse) \<and> \<not> falsy (subject bulk_abc)
   \<and> body bulk_abc = Some (''Hi'' @ [CHR 0x0A] @ ''<b>all</b>'')
   \<and> emails bulk_abc = Some [''a@x.io'', ''b@x.io'', ''c@x.io'']
   \<and> split_lines (''Hi'' @ [CHR 0x0A] @ ''<b>all</b>'') = [''Hi'', ''<b>all</b>'']
   \<and> map (\<lambda>(m, r). (msg_to m, msg_content m))
        (mail_log (snd (post_bulk_email env_refuse w_empty (Some bulk_abc)))) =
      [(''a@x.io'', Html (''<div style='' @ [CHR 0x27] @ ''font-family:sans-serif;line-height:1.5;''
            @ [CHR 0x27] @ ''>Hi<br/><b>all</b></div>'')),
       (''b@x.io'', Html (''<div style='' @ [CHR 0x27] @ ''font-family:sans-serif;line-height:1.5;''
            @ [CHR 0x27] @ ''>Hi<br/><b>all</b></div>'')),
       (''c@x.io'', Html (''<div style='' @ [CHR 0x27] @ ''font-family:sans-serif;line-height:1.5;''
            @ [CHR 0x27] @ ''>Hi<br/><b>all</b></div>''))]"
proof -
  have h: "\<not> falsy (api_key env_refuse)" "\<not> falsy (subject bulk_abc)"
    "body bulk_abc = Some (''Hi'' @ [CHR 0x0A] @ ''<b>all</b>'')"
    "''Hi'' @ [CHR 0x0A] @ ''<b>all</b>'' \<noteq> []"
    "emails bulk_abc = Some [''a@x.io'', ''b@x.io'', ''c@x.io'']"
    by (simp_all add: falsy_def env_refuse_def env_ok_def bulk_abc_def)
  have s: "split_lines (''Hi'' @ [CHR 0x0A] @ ''<b>all</b>'') = [''Hi'', ''<b>all</b>'']"
    by simp
  have e: "mail_log w_empty = []"
    by (simp add: w_empty_def)
  from bulk_html_is_lines_joined [OF h, of w_empty]
  have "map (\<lambda>(m, r). (msg_to m, msg_content m))
        (mail_log (snd (post_bulk_email env_refuse w_empty (Some bulk_abc)))) =
      [(''a@x.io'', Html (''<div style='' @ [CHR 0x27] @ ''font-family:sans-serif;line-height:1.5;''
            @ [CHR 0x27] @ ''>Hi<br/><b>all</b></div>'')),
       (''b@x.io'', Html (''<div style='' @ [CHR 0x27] @ ''font-family:sans-serif;line-height:1.5;''
            @ [CHR 0x27] @ ''>Hi<br/><b>all</b></div>'')),
       (''c@x.io'', Html (''<div style='' @ [CHR 0x27] @ ''font-family:sans-serif;line-height:1.5;''
            @ [CHR 0x27] @ ''>Hi<br/><b>all</b></div>''))]"
    unfolding e s by simp
  with h s show ?thesis by blast
qed

section \<open>Count\<close>

text \<open>
  C5. The count operation never hands an error to its caller: when the count query of the
  store fails it answers \<open>{count: 0}\<close> with status 200, and otherwise the number of
  subscribers in the store; the world is left as it was.
\<close>

theorem count_degrades_to_zero:
  "get_count env w =
     (Response 200
        (CountOnly (if getSubscriberCount env (store w) = None then 0 else length (store w))), w)"
  by (simp add: get_count_def getSubscriberCount_def)

theorem count_degrades_to_zero_witness:
  "get_count env_down w_ann = (Response 200 (CountOnly 0), w_ann)
   \<and> get_count env_ok w_ann = (Response 200 (CountOnly 1), w_ann)"
  using count_degrades_to_zero [of env_down w_ann] count_degrades_to_zero [of env_ok w_ann]
  by (simp add: getSubscriberCount_def env_down_def env_ok_def w_ann_def)

section \<open>Bulk email without an API key\<close>

text \<open>
  C7. A bulk send requested while \<^verbatim>\<open>RESEND_API_KEY\<close> is absent (or empty) makes no call
  to the mail provider and leaves the world unchanged. A request that carries a body is
  answered at once with status 500 and the message that the key is not configured. A
  request without a body is not answered by the handler: the fields of \<^verbatim>\<open>req.body\<close> are
  read before the key is checked and outside the \<^verbatim>\<open>try\<close>, and the exception leaves the
  handler.
\<close>

theorem bulk_unconfigured_sends_nothing:
  "falsy (api_key env) \<Longrightarrow>
   post_bulk_email env w req =
     ((case req of
         None \<Rightarrow> Unhandled
       | Some b \<Rightarrow> Response 500 (Msg False ''Resend API key not configured.'')), w)
   \<and> mail_log (snd (post_bulk_email env w req)) = mail_log w"
  by (simp add: post_bulk_email_def split: option.splits)

theorem bulk_unconfigured_sends_nothing_witness:
  "falsy (api_key env_nokey)
   \<and> post_bulk_email env_nokey w_ann (Some bulk_abc) =
       (Response 500 (Msg False ''Resend API key not configured.''), w_ann)
   \<and> mail_log (snd (post_bulk_email env_nokey w_ann (Some bulk_abc))) = mail_log w_ann
   \<and> post_bulk_email env_nokey w_ann None = (Unhandled, w_ann)"
proof -
  have h: "falsy (api_key env_nokey)"
    by (simp add: falsy_def env_nokey_def env_ok_def)
  from bulk_unconfigured_sends_nothing [OF h, of w_ann "Some bulk_abc"]
    bulk_unconfigured_sends_nothing [OF h, of w_ann None] h
  show ?thesis by simp
qed

text \<open>
  C10. In the bulk handler the configuration check precedes the validation of the input:
  without an API key a request that carries a body gets the 500 answer also when subject,
  body or recipients are missing, and no request at all gets the 400 answer; with a key,
  the same incomplete request gets the 400 answer. The reading of \<^verbatim>\<open>req.body\<close> precedes
  both checks, so a request without a body gets neither answer, with or without a key:
  the exception leaves the handler.
\<close>

theorem bulk_config_check_first:
  "(falsy (api_key env) \<longrightarrow>
      fst (post_bulk_email env w (Some b)) =
        Response 500 (Msg False ''Resend API key not configured.'')
      \<and> status_of (fst (post_bulk_email env w req)) \<noteq> Some 400)
   \<and> (\<not> falsy (api_key env)
       \<and> (falsy (subject b) \<or> falsy (body b) \<or> emails b = None \<or> emails b = Some []) \<longrightarrow>
      fst (post_bulk_email env w (Some b)) =
        Response 400 (Msg False ''Subject, body, and at least one recipient are required.''))
   \<and> fst (post_bulk_email env w None) = Unhandled"
  by (cases req) (auto simp add: post_bulk_email_def)

theorem bulk_config_check_first_witness:
  "falsy (api_key env_nokey) \<and> falsy (subject bulk_blank)
   \<and> fst (post_bulk_email env_nokey w_empty (Some bulk_blank)) =
       Response 500 (Msg False ''Resend API key not configured.'')
   \<and> status_of (fst (post_bulk_email env_nokey w_empty (Some bulk_blank))) \<noteq> Some 400
   \<and> \<not> falsy (api_key env_ok)
   \<and> fst (post_bulk_email env_ok w_empty (Some bulk_blank)) =
       Response 400 (Msg False ''Subject, body, and at least one recipient are required.'')
   \<and> fst (post_bulk_email env_nokey w_empty None) = Unhandled"
proof -
  have h1: "falsy (api_key env_nokey)"
    by (simp add: falsy_def env_nokey_def env_ok_def)
  have h2: "\<not> falsy (api_key env_ok)"
    by (simp add: falsy_def env_ok_def)
  have h3: "falsy (subject bulk_blank)"
    by (simp add: falsy_def bulk_blank_def)
  from bulk_config_check_first [of env_nokey w_empty bulk_blank "Some bulk_blank"]
    bulk_config_check_first [of env_ok w_empty bulk_blank] h1 h2 h3
  show ?thesis by simp
qed

section \<open>Faults at the boundary of a handler\<close>

text \<open>
  C9. Every handler answers every request and every fault of the store or of the mail
  provider with a response, with one exception: the bulk handler reads the fields of
  \<^verbatim>\<open>req.body\<close> before its \<^verbatim>\<open>try\<close>, so a request that carries no body makes the
  exception leave the handler. The join handler reads them inside its \<^verbatim>\<open>try\<close> and
  answers such a request with status 500.
\<close>

theorem exception_escapes_only_bulk_without_body:
  "(fst (handle env w r) = Unhandled) = (r = BulkEmail None)"
  by (cases r)
    (auto simp add: post_join_def get_count_def get_subscribers_def delete_subscriber_def
      post_bulk_email_def unexpected_join_def Let_def
      split: option.splits list.splits send_result.splits if_splits prod.splits)

theorem exception_escapes_only_bulk_without_body_witness:
  "fst (handle env_down w_empty (BulkEmail None)) = Unhandled
   \<and> fst (handle env_down w_empty (Join None)) \<noteq> Unhandled"
  using exception_escapes_only_bulk_without_body [of env_down w_empty "BulkEmail None"]
    exception_escapes_only_bulk_without_body [of env_down w_empty "Join None"]
  by simp

end
